theory Spec2Isabelle
  imports Main
begin

section \<open>The session manager \<open>AuthConfig\<close> as a state-passing model\<close>

text \<open>
  The class \<open>AuthConfig\<close> of the credential manager is embedded as a record of its
  private fields; every public operation is a function from the state before the call to
  the settled promise it returns and the state after the call.

  Conventions of the embedding:
  \<^item> a thrown or rejected JavaScript value is an \<open>error\<close>;
  \<^item> a promise is \<open>Pending\<close>, \<open>Fulfilled v\<close> or \<open>Rejected e\<close>; \<open>resolve\<close> and
    \<open>reject\<close> settle a pending promise and do nothing to a settled one, as the two
    functions handed to a \<open>new Promise\<close> executor do;
  \<^item> the collaborators that are not part of the class (the storage object, \<open>JSON.stringify\<close>,
    \<open>jose.decodeJwt\<close>, \<open>Date.now\<close>, the injected callbacks) are parameters: a call of one of
    them returns, throws or (for a promise) stays pending, and the model has a branch for
    each outcome the source can observe;
  \<^item> every externally visible step is appended to the field \<open>trace\<close>, in the order the
    source performs it, so that statements about ordering and about calls that must not
    happen can be made. Assignments to \<open>this.user\<close> and \<open>this.authPayload\<close> are traced as
    well.

  Assumptions: the callbacks, the event listeners and the storage object do not call back
  into the manager; listeners and \<open>console\<close> do not throw; \<open>removeItem\<close> does not throw
  (the source never guards it). Time stamps are integers.
\<close>

subsection \<open>Data\<close>

datatype error = Error string

datatype 'a promise = Pending | Fulfilled 'a | Rejected error

definition resolve :: "'a \<Rightarrow> 'a promise \<Rightarrow> 'a promise" where
  "resolve v pr = (case pr of Pending \<Rightarrow> Fulfilled v | Fulfilled w \<Rightarrow> Fulfilled w | Rejected e \<Rightarrow> Rejected e)"

definition reject :: "error \<Rightarrow> 'a promise \<Rightarrow> 'a promise" where
  "reject e pr = (case pr of Pending \<Rightarrow> Rejected e | Fulfilled w \<Rightarrow> Fulfilled w | Rejected d \<Rightarrow> Rejected d)"

text \<open>\<open>User\<close>: an open attribute mapping with the mandatory field \<open>sub\<close>.\<close>

record User =
  sub :: string
  attributes :: "(string \<times> string) list"

text \<open>\<open>AuthPayload\<close>: \<open>expiresIn\<close> is optional (\<open>None\<close> is \<open>undefined\<close>).\<close>

record AuthPayload =
  accessToken :: string
  refreshToken :: string
  expiresIn :: "int option"

text \<open>The part of \<open>jose.JWTPayload\<close> the manager reads.\<close>

record JWTPayload =
  exp :: "int option"

text \<open>
  What a call of the token decoder can do. \<open>jose.decodeJwt\<close> throws on a token it cannot
  decode; the decoder of the sibling implementation (\<open>jwt.decode\<close>) returns \<open>null\<close> there.
\<close>

datatype decode_result = Decode_throws error | Decode_null | Decoded JWTPayload

text \<open>
  The \<open>Storage\<close> object: its items, and whether a read or a write throws in its present
  condition.
\<close>

record Storage =
  items :: "string \<rightharpoonup> string"
  getItem_throws :: "error option"
  setItem_throws :: "error option"

definition getItem :: "Storage \<Rightarrow> string \<Rightarrow> error + string option" where
  "getItem st k = (case getItem_throws st of Some e \<Rightarrow> Inl e | None \<Rightarrow> Inr (items st k))"

definition setItem :: "Storage \<Rightarrow> string \<Rightarrow> string \<Rightarrow> error + Storage" where
  "setItem st k v =
     (case setItem_throws st of Some e \<Rightarrow> Inl e | None \<Rightarrow> Inr (st\<lparr>items := (items st)(k \<mapsto> v)\<rparr>))"

definition removeItem :: "Storage \<Rightarrow> string \<Rightarrow> Storage" where
  "removeItem st k = st\<lparr>items := (items st)(k := None)\<rparr>"

text \<open>\<open>Required<AuthStorageOptions>\<close>, the field \<open>storageOptions\<close> of the class.\<close>

record StorageOptions =
  key :: string
  storage :: Storage

text \<open>\<open>AuthStorageOptions\<close> and \<open>AuthConfigOptions\<close>, the constructor's argument.\<close>

record AuthStorageOptions =
  opt_key :: "string option"
  opt_storage :: "Storage option"

record AuthConfigOptions =
  opt_authorize :: "User \<Rightarrow> AuthPayload option promise"
  opt_signOutCallback :: "unit promise option"
  opt_storageOptions :: "AuthStorageOptions option"
  opt_scope :: "string option"

text \<open>The events of the emitter with the data they carry.\<close>

datatype AuthEvent = SIGNIN User AuthPayload | SIGNOUT | SETUSER AuthPayload

datatype logged = Text string | Thrown error

datatype effect =
    Call_authorize User
  | Call_refresh string
  | Call_signOutCallback
  | Call_onSuccess AuthPayload
  | Storage_getItem string
  | Storage_setItem string string
  | Storage_removeItem string
  | Emit AuthEvent
  | Console_error logged
  | Console_log string
  | Request_eject nat nat
  | Write_user "User option"
  | Write_authPayload AuthPayload

text \<open>
  The fields of the class. \<open>authorize\<close> resolves to a payload or to a falsy value
  (\<open>None\<close>); \<open>signOutCallback\<close>, when configured, is the promise its call returns. An HTTP
  client instance is an opaque identifier; \<open>Request_eject i h\<close> is the call
  \<open>interceptors.request.eject(h)\<close> on instance \<open>i\<close>.
\<close>

record AuthConfig =
  authorize :: "User \<Rightarrow> AuthPayload option promise"
  signOutCallback :: "unit promise option"
  storageOptions :: StorageOptions
  user :: "User option"
  authPayload :: "AuthPayload option"
  axiosInstance :: "nat option"
  axiosInterceptorEjectIds :: "nat list"
  trace :: "effect list"

text \<open>The ambient globals an operation reads.\<close>

record Globals =
  JSON_stringify :: "AuthPayload \<Rightarrow> error + string"
  decodeJwt :: "string \<Rightarrow> decode_result"
  Date_now :: int

subsection \<open>Bookkeeping of effects\<close>

definition record_effect :: "effect \<Rightarrow> AuthConfig \<Rightarrow> AuthConfig" where
  "record_effect x s = s\<lparr>trace := trace s @ [x]\<rparr>"

definition new_effects :: "AuthConfig \<Rightarrow> AuthConfig \<Rightarrow> effect list" where
  "new_effects s s' = drop (length (trace s)) (trace s')"

definition emit :: "AuthEvent \<Rightarrow> AuthConfig \<Rightarrow> AuthConfig" where
  "emit ev s = record_effect (Emit ev) s"

definition console_error :: "logged \<Rightarrow> AuthConfig \<Rightarrow> AuthConfig" where
  "console_error x s = record_effect (Console_error x) s"

definition console_log :: "string \<Rightarrow> AuthConfig \<Rightarrow> AuthConfig" where
  "console_log x s = record_effect (Console_log x) s"

definition write_user :: "User option \<Rightarrow> AuthConfig \<Rightarrow> AuthConfig" where
  "write_user u s = record_effect (Write_user u) (s\<lparr>user := u\<rparr>)"

definition write_authPayload :: "AuthPayload \<Rightarrow> AuthConfig \<Rightarrow> AuthConfig" where
  "write_authPayload p s = record_effect (Write_authPayload p) (s\<lparr>authPayload := Some p\<rparr>)"

text \<open>\<open>this.storageOptions.storage.removeItem(this.storageOptions.key)\<close>\<close>

definition storage_removeItem :: "AuthConfig \<Rightarrow> AuthConfig" where
  "storage_removeItem s =
     (let so = storageOptions s
      in record_effect (Storage_removeItem (key so))
           (s\<lparr>storageOptions := so\<lparr>storage := removeItem (storage so) (key so)\<rparr>\<rparr>))"

text \<open>The value stored under the configured key, read directly from the items.\<close>

definition stored_token :: "AuthConfig \<Rightarrow> string option" where
  "stored_token s = items (storage (storageOptions s)) (key (storageOptions s))"

subsection \<open>Construction\<close>

text \<open>
  \<open>setStorageOptions\<close>: \<open>||\<close> and the conditional test truthiness, so an empty key and an
  empty scope count as absent.
\<close>

definition setStorageOptions :: "AuthStorageOptions \<Rightarrow> string option \<Rightarrow> AuthConfig \<Rightarrow> AuthConfig" where
  "setStorageOptions so sc s =
     (let k = (case opt_key so of
                 None \<Rightarrow> key (storageOptions s)
               | Some k' \<Rightarrow> if k' \<noteq> [] then k' else key (storageOptions s));
          k2 = (case sc of
                  None \<Rightarrow> k
                | Some c \<Rightarrow> if c \<noteq> [] then c @ '':'' @ k else k);
          s1 = s\<lparr>storageOptions := (storageOptions s)\<lparr>key := k2\<rparr>\<rparr>;
          st = (case opt_storage so of
                  None \<Rightarrow> storage (storageOptions s1)
                | Some st' \<Rightarrow> st')
      in s1\<lparr>storageOptions := (storageOptions s1)\<lparr>storage := st\<rparr>\<rparr>)"

text \<open>
  The field initialisers and the constructor; \<open>localStorage\<close> is the ambient global the
  field \<open>storageOptions\<close> starts with.
\<close>

definition constructor :: "Storage \<Rightarrow> AuthConfigOptions \<Rightarrow> AuthConfig" where
  "constructor localStorage opts =
     (let s = \<lparr>authorize = opt_authorize opts,
               signOutCallback = opt_signOutCallback opts,
               storageOptions = \<lparr>key = ''token'', storage = localStorage\<rparr>,
               user = None,
               authPayload = None,
               axiosInstance = None,
               axiosInterceptorEjectIds = [],
               trace = []\<rparr>
      in case opt_storageOptions opts of
           None \<Rightarrow> s
         | Some so \<Rightarrow> setStorageOptions so (opt_scope opts) s)"

subsection \<open>Private helpers\<close>

text \<open>
  \<open>persistJWTTokenPayload\<close>: \<open>JSON.stringify\<close> is evaluated first, then \<open>setItem\<close> is
  called; either may throw. The result is the thrown error, if any, and the state reached.
\<close>

definition persistJWTTokenPayload :: "Globals \<Rightarrow> AuthPayload \<Rightarrow> AuthConfig \<Rightarrow> error option \<times> AuthConfig" where
  "persistJWTTokenPayload g p s =
     (case JSON_stringify g p of
        Inl e \<Rightarrow> (Some e, s)
      | Inr j \<Rightarrow>
          (let so = storageOptions s;
               s1 = record_effect (Storage_setItem (key so) j) s
           in case setItem (storage so) (key so) j of
                Inl e \<Rightarrow> (Some e, s1)
              | Inr st \<Rightarrow> (None, s1\<lparr>storageOptions := so\<lparr>storage := st\<rparr>\<rparr>)))"

text \<open>
  \<open>tryOverrideTokenExpiration\<close> mutates the payload object in place; the model returns the
  object after the call. A number is truthy when it is not zero.
\<close>

definition truthy :: "int option \<Rightarrow> bool" where
  "truthy n = (case n of None \<Rightarrow> False | Some v \<Rightarrow> v \<noteq> 0)"

text \<open>The test \<open>expiresIn && Date.now() > expiresIn\<close>.\<close>

definition is_expired :: "int \<Rightarrow> int option \<Rightarrow> bool" where
  "is_expired now n = (case n of None \<Rightarrow> False | Some t \<Rightarrow> t \<noteq> 0 \<and> now > t)"

definition tryOverrideTokenExpiration :: "AuthPayload \<Rightarrow> JWTPayload \<Rightarrow> AuthPayload" where
  "tryOverrideTokenExpiration p jwt =
     (if truthy (expiresIn p) then p
      else if truthy (exp jwt) then p\<lparr>expiresIn := exp jwt\<rparr>
      else p)"

text \<open>
  \<open>ejectTriggeredInterceptors\<close>: one \<open>request.eject\<close> per recorded handle on the current
  instance (none when there is no instance), then the registry is emptied.
\<close>

fun eject_each :: "nat list \<Rightarrow> AuthConfig \<Rightarrow> AuthConfig" where
  "eject_each [] s = s"
| "eject_each (h # hs) s =
     eject_each hs (case axiosInstance s of
                      None \<Rightarrow> s
                    | Some i \<Rightarrow> record_effect (Request_eject i h) s)"

definition ejectTriggeredInterceptors :: "AuthConfig \<Rightarrow> AuthConfig" where
  "ejectTriggeredInterceptors s =
     (if axiosInterceptorEjectIds s = [] then s
      else (eject_each (axiosInterceptorEjectIds s) s)\<lparr>axiosInterceptorEjectIds := []\<rparr>)"

text \<open>The \<open>request.eject\<close> calls one run of \<open>ejectTriggeredInterceptors\<close> issues.\<close>

definition eject_calls :: "AuthConfig \<Rightarrow> effect list" where
  "eject_calls s =
     (case axiosInstance s of
        None \<Rightarrow> []
      | Some i \<Rightarrow> map (Request_eject i) (axiosInterceptorEjectIds s))"

subsection \<open>Public operations\<close>

text \<open>
  \<open>setUser\<close>: the executor of the returned promise runs synchronously; the promise is
  settled by \<open>resolve\<close> or \<open>reject\<close>.
\<close>

definition setUser :: "Globals \<Rightarrow> AuthPayload \<Rightarrow> AuthConfig \<Rightarrow> unit promise \<times> AuthConfig" where
  "setUser g p s =
     (let s1 = write_authPayload p s
      in case persistJWTTokenPayload g p s1 of
           (None, s2) \<Rightarrow>
             (let s3 = emit (SETUSER p) s2;
                  s4 = console_log ''The user payload has been successfully updated.'' s3
              in (resolve () Pending, s4))
         | (Some e, s2) \<Rightarrow>
             (let s3 = console_error (Thrown e) s2
              in (reject e Pending, s3)))"

text \<open>The \<open>catch\<close> block of \<open>signIn\<close>.\<close>

definition signIn_catch :: "error \<Rightarrow> AuthConfig \<Rightarrow> unit promise \<times> AuthConfig" where
  "signIn_catch e s =
     (let s1 = console_error (Thrown e) s;
          s2 = write_user None s1;
          s3 = storage_removeItem s2
      in (Fulfilled (), s3))"

text \<open>
  \<open>signIn\<close>: \<open>onSuccess\<close> is the optional second argument; a call of it returns (\<open>None\<close>) or
  throws. An \<open>await\<close> of a pending promise leaves the operation pending.
\<close>

definition signIn :: "Globals \<Rightarrow> User \<Rightarrow> (AuthPayload \<Rightarrow> error option) option \<Rightarrow> AuthConfig \<Rightarrow> unit promise \<times> AuthConfig" where
  "signIn g u onSuccess s =
     (let s0 = record_effect (Call_authorize u) s
      in case authorize s u of
           Pending \<Rightarrow> (Pending, s0)
         | Rejected e \<Rightarrow> signIn_catch e s0
         | Fulfilled None \<Rightarrow>
             (Fulfilled (),
              console_error (Text ''The authorize callback returns some invalid data'') s0)
         | Fulfilled (Some p) \<Rightarrow>
             (let s1 = write_user (Some u) s0
              in case setUser g p s1 of
                   (Pending, s2) \<Rightarrow> (Pending, s2)
                 | (Rejected e, s2) \<Rightarrow> signIn_catch e s2
                 | (Fulfilled x, s2) \<Rightarrow>
                     (let s3 = emit (SIGNIN u p) s2;
                          s4 = console_log ''The user has beed successfully signed in'' s3
                      in case onSuccess of
                           None \<Rightarrow> (Fulfilled (), s4)
                         | Some f \<Rightarrow>
                             (let s5 = record_effect (Call_onSuccess p) s4
                              in case f p of
                                   None \<Rightarrow> (Fulfilled (), s5)
                                 | Some e \<Rightarrow> signIn_catch e s5))))"

text \<open>
  \<open>getUser\<close>: in the \<open>catch\<close> block the executor calls \<open>reject(error)\<close> and then
  \<open>resolve(null)\<close> on the same promise.
\<close>

definition getUser :: "AuthConfig \<Rightarrow> User option promise \<times> AuthConfig" where
  "getUser s =
     (let so = storageOptions s;
          s0 = record_effect (Storage_getItem (key so)) s
      in case getItem (storage so) (key so) of
           Inr None \<Rightarrow> (resolve None Pending, s0)
         | Inr (Some v) \<Rightarrow> (resolve (user s0) Pending, s0)
         | Inl e \<Rightarrow>
             (let s1 = console_error (Thrown e) s0;
                  pr = reject e Pending
              in (resolve None pr, s1)))"

text \<open>The \<open>catch\<close> block of \<open>checkAccessTokenIsExpired\<close>.\<close>

definition check_catch :: "error \<Rightarrow> AuthConfig \<Rightarrow> unit promise \<times> AuthConfig" where
  "check_catch e s =
     (let s1 = console_error (Thrown e) s;
          s2 = ejectTriggeredInterceptors s1;
          s3 = storage_removeItem s2;
          s4 = write_user None s3
      in (Fulfilled (), s4))"

text \<open>
  \<open>checkAccessTokenIsExpired\<close>: the decoder is called outside any \<open>try\<close>, so an error it
  throws rejects the promise of the \<open>async\<close> function. The payload object is mutated in
  place by \<open>tryOverrideTokenExpiration\<close>; the field keeps referring to it.
\<close>

definition checkAccessTokenIsExpired :: "Globals \<Rightarrow> (string \<Rightarrow> AuthPayload promise) \<Rightarrow> AuthConfig \<Rightarrow> unit promise \<times> AuthConfig" where
  "checkAccessTokenIsExpired g handleRefreshToken s =
     (case authPayload s of
        None \<Rightarrow> (Fulfilled (), s)
      | Some p \<Rightarrow>
          if accessToken p = [] then (Fulfilled (), s)
          else
            (case decodeJwt g (accessToken p) of
               Decode_throws e \<Rightarrow> (Rejected e, s)
             | Decode_null \<Rightarrow> (Fulfilled (), s)
             | Decoded jwt \<Rightarrow>
                 (let p1 = tryOverrideTokenExpiration p jwt;
                      s1 = s\<lparr>authPayload := Some p1\<rparr>
                  in if is_expired (Date_now g) (expiresIn p1) then
                       (let s2 = record_effect (Call_refresh (refreshToken p1)) s1
                        in case handleRefreshToken (refreshToken p1) of
                             Pending \<Rightarrow> (Pending, s2)
                           | Rejected e \<Rightarrow> check_catch e s2
                           | Fulfilled newPayload \<Rightarrow>
                               (case setUser g newPayload s2 of
                                  (Rejected e, s3) \<Rightarrow> check_catch e s3
                                | (Pending, s3) \<Rightarrow> (Pending, s3)
                                | (Fulfilled x, s3) \<Rightarrow> (Fulfilled (), s3)))
                     else (Fulfilled (), s1))))"

text \<open>
  \<open>signOut\<close>: the promise of the callback, when one is configured, decides how the
  operation settles.
\<close>

definition signOut :: "AuthConfig \<Rightarrow> unit promise \<times> AuthConfig" where
  "signOut s =
     (let s1 = storage_removeItem s;
          s2 = write_user None s1;
          s3 = ejectTriggeredInterceptors s2;
          s4 = emit SIGNOUT s3
      in case signOutCallback s4 of
           None \<Rightarrow> (Fulfilled (), s4)
         | Some pr \<Rightarrow> (pr, record_effect Call_signOutCallback s4))"

text \<open>
  \<open>applyAxiosMiddleware\<close>, as far as the manager's own state goes: the instance is
  remembered and the two handles returned by the HTTP client library
  (\<open>createAuthRefreshInterceptor\<close> and \<open>interceptors.request.use\<close>) are appended to the
  registry. The bodies of the two interceptors are not part of this model.
\<close>

definition applyAxiosMiddleware :: "nat \<Rightarrow> nat \<Rightarrow> nat \<Rightarrow> AuthConfig \<Rightarrow> AuthConfig" where
  "applyAxiosMiddleware inst refreshHandle requestHandle s =
     (let s1 = s\<lparr>axiosInstance := Some inst\<rparr>;
          s2 = s1\<lparr>axiosInterceptorEjectIds := axiosInterceptorEjectIds s1 @ [refreshHandle]\<rparr>
      in s2\<lparr>axiosInterceptorEjectIds := axiosInterceptorEjectIds s2 @ [requestHandle]\<rparr>)"

subsection \<open>Sample collaborators and states\<close>

text \<open>Concrete users, payloads, storages and globals on which the theorems are exercised.\<close>

definition alice :: User where
  "alice = \<lparr>sub = ''u1'', attributes = []\<rparr>"

definition bob :: User where
  "bob = \<lparr>sub = ''u0'', attributes = [(''name'', ''Bob'')]\<rparr>"

definition payload_ab :: AuthPayload where
  "payload_ab = \<lparr>accessToken = ''a'', refreshToken = ''b'', expiresIn = None\<rparr>"

definition payload_old :: AuthPayload where
  "payload_old = \<lparr>accessToken = ''expired.jwt'', refreshToken = ''r0'', expiresIn = None\<rparr>"

definition payload_zero :: AuthPayload where
  "payload_zero = \<lparr>accessToken = ''future.jwt'', refreshToken = ''r1'', expiresIn = Some 0\<rparr>"

definition payload_fixed :: AuthPayload where
  "payload_fixed = \<lparr>accessToken = ''future.jwt'', refreshToken = ''r2'', expiresIn = Some 5000\<rparr>"

text \<open>The payload the bootstrap code of the repository lets \<open>authorize\<close> resolve to.\<close>

definition payload_malformed :: AuthPayload where
  "payload_malformed =
     \<lparr>accessToken = ''access token'', refreshToken = ''refresh token'', expiresIn = None\<rparr>"

text \<open>A stand-in for \<open>JSON.stringify\<close> that keeps the two tokens apart.\<close>

definition sample_stringify :: "AuthPayload \<Rightarrow> error + string" where
  "sample_stringify p = Inr (''{accessToken:'' @ accessToken p @ '',refreshToken:'' @ refreshToken p @ ''}'')"

text \<open>A decoder that throws on every token it does not know, as \<open>jose.decodeJwt\<close> does.\<close>

definition sample_decodeJwt :: "string \<Rightarrow> decode_result" where
  "sample_decodeJwt tok =
     (if tok = ''expired.jwt'' then Decoded \<lparr>exp = Some 1000\<rparr>
      else if tok = ''future.jwt'' then Decoded \<lparr>exp = Some 9000\<rparr>
      else if tok = ''a'' then Decoded \<lparr>exp = None\<rparr>
      else Decode_throws (Error ''JWTInvalid''))"

definition sample_globals :: Globals where
  "sample_globals = \<lparr>JSON_stringify = sample_stringify, decodeJwt = sample_decodeJwt, Date_now = 2000\<rparr>"

definition empty_storage :: Storage where
  "empty_storage = \<lparr>items = Map.empty, getItem_throws = None, setItem_throws = None\<rparr>"

definition full_storage :: Storage where
  "full_storage = \<lparr>items = Map.empty, getItem_throws = None,
                    setItem_throws = Some (Error ''QuotaExceededError'')\<rparr>"

definition unreadable_storage :: Storage where
  "unreadable_storage = \<lparr>items = Map.empty, getItem_throws = Some (Error ''SecurityError''),
                          setItem_throws = None\<rparr>"

text \<open>
  An \<open>authorize\<close> callback that accepts \<open>bob\<close>, resolves to a falsy value for \<open>alice\<close>
  and rejects everybody else.
\<close>

definition sample_authorize :: "User \<Rightarrow> AuthPayload option promise" where
  "sample_authorize u =
     (if sub u = ''u0'' then Fulfilled (Some payload_ab)
      else if sub u = ''u1'' then Fulfilled None
      else Rejected (Error ''401''))"

definition carol :: User where
  "carol = \<lparr>sub = ''u2'', attributes = []\<rparr>"

definition plain_options :: AuthConfigOptions where
  "plain_options = \<lparr>opt_authorize = sample_authorize,
                     opt_signOutCallback = None,
                     opt_storageOptions = None,
                     opt_scope = None\<rparr>"

text \<open>Options with a scope but no \<open>storageOptions\<close>, and with an empty scope.\<close>

definition scope_only_options :: AuthConfigOptions where
  "scope_only_options = plain_options\<lparr>opt_scope := Some ''app''\<rparr>"

definition empty_scope_options :: AuthConfigOptions where
  "empty_scope_options =
     plain_options\<lparr>opt_storageOptions := Some \<lparr>opt_key = None, opt_storage = None\<rparr>,
                   opt_scope := Some []\<rparr>"

definition scoped_options :: AuthConfigOptions where
  "scoped_options =
     plain_options\<lparr>opt_storageOptions := Some \<lparr>opt_key = None, opt_storage = None\<rparr>,
                   opt_scope := Some ''app''\<rparr>"

text \<open>A manager on an empty storage, and the same after \<open>bob\<close> has signed in.\<close>

definition fresh_manager :: AuthConfig where
  "fresh_manager = constructor empty_storage plain_options"

definition bob_signed_in :: AuthConfig where
  "bob_signed_in = snd (signIn sample_globals bob None fresh_manager)"

text \<open>Managers on a storage that cannot be written, and on one that cannot be read.\<close>

definition full_manager :: AuthConfig where
  "full_manager = constructor full_storage plain_options"

definition unreadable_manager :: AuthConfig where
  "unreadable_manager =
     snd (signIn sample_globals bob None (constructor unreadable_storage plain_options))"

text \<open>\<open>bob\<close>'s session after the storage has been emptied from outside the manager.\<close>

definition token_cleared_outside :: AuthConfig where
  "token_cleared_outside =
     bob_signed_in\<lparr>storageOptions := (storageOptions bob_signed_in)\<lparr>storage := empty_storage\<rparr>\<rparr>"

text \<open>\<open>bob\<close>'s session after \<open>setUser\<close> with each of the sample payloads.\<close>

definition malformed_session :: AuthConfig where
  "malformed_session = snd (setUser sample_globals payload_malformed bob_signed_in)"

definition zero_session :: AuthConfig where
  "zero_session = snd (setUser sample_globals payload_zero bob_signed_in)"

definition fixed_session :: AuthConfig where
  "fixed_session = snd (setUser sample_globals payload_fixed bob_signed_in)"

definition expired_session :: AuthConfig where
  "expired_session =
     applyAxiosMiddleware 7 0 0 (snd (setUser sample_globals payload_old bob_signed_in))"

text \<open>
  The same session when the middleware was applied to two client instances: first to
  client \<open>1\<close>, which returned the handles \<open>10\<close> and \<open>11\<close>, then to client \<open>2\<close>, which
  returned \<open>20\<close> and \<open>21\<close>.
\<close>

definition two_clients_session :: AuthConfig where
  "two_clients_session =
     applyAxiosMiddleware 2 20 21
       (applyAxiosMiddleware 1 10 11 (snd (setUser sample_globals payload_old bob_signed_in)))"

text \<open>A manager with a sign-out callback.\<close>

definition callback_manager :: AuthConfig where
  "callback_manager =
     constructor empty_storage (plain_options\<lparr>opt_signOutCallback := Some (Fulfilled ())\<rparr>)"

text \<open>Refresh functions: one that always rejects, one that delivers \<open>payload_ab\<close>.\<close>

definition refresh_rejects :: "string \<Rightarrow> AuthPayload promise" where
  "refresh_rejects tok = Rejected (Error ''refresh failed'')"

definition refresh_ok :: "string \<Rightarrow> AuthPayload promise" where
  "refresh_ok tok = Fulfilled payload_ab"

text \<open>A storage effect names the key \<open>k\<close>; every other effect passes.\<close>

definition uses_key :: "string \<Rightarrow> effect \<Rightarrow> bool" where
  "uses_key k x =
     (case x of
        Storage_getItem k' \<Rightarrow> k' = k
      | Storage_setItem k' v \<Rightarrow> k' = k
      | Storage_removeItem k' \<Rightarrow> k' = k
      | _ \<Rightarrow> True)"

text \<open>
  From \<open>s\<close> to \<open>s'\<close> every storage call was made with the key \<open>k\<close>, and \<open>k\<close> is still the
  configured key.
\<close>

definition keeps_key :: "string \<Rightarrow> AuthConfig \<Rightarrow> AuthConfig \<Rightarrow> bool" where
  "keeps_key k s s' =
     (list_all (uses_key k) (new_effects s s') \<and> key (storageOptions s') = k)"

text \<open>Globals whose decoder returns \<open>null\<close> on every token, as \<open>jwt.decode\<close> does on a malformed one.\<close>

definition null_decoder_globals :: Globals where
  "null_decoder_globals = sample_globals\<lparr>decodeJwt := (\<lambda>tok. Decode_null)\<rparr>"

section \<open>Facts about the helpers\<close>

lemmas op_defs = record_effect_def emit_def console_error_def console_log_def write_user_def
  write_authPayload_def storage_removeItem_def removeItem_def setItem_def
  getItem_def resolve_def reject_def

lemma new_effects_append [simp]: "trace s' = trace s @ xs \<Longrightarrow> new_effects s s' = xs"
  by (simp add: new_effects_def)

lemma new_effects_self [simp]: "new_effects s s = []"
  by (simp add: new_effects_def)

lemma uses_key_simps [simp]:
  "uses_key k (Storage_getItem k') = (k' = k)"
  "uses_key k (Storage_setItem k' v) = (k' = k)"
  "uses_key k (Storage_removeItem k') = (k' = k)"
  "uses_key k (Call_authorize u)" "uses_key k (Call_refresh r)" "uses_key k Call_signOutCallback"
  "uses_key k (Call_onSuccess p)" "uses_key k (Emit ev)" "uses_key k (Console_error l)"
  "uses_key k (Console_log m)" "uses_key k (Request_eject i h)" "uses_key k (Write_user uo)"
  "uses_key k (Write_authPayload p)"
  by (simp_all add: uses_key_def)

subsection \<open>Detaching the middleware handles\<close>

lemma eject_each_eq:
  "eject_each hs s =
     s\<lparr>trace := trace s @ (case axiosInstance s of None \<Rightarrow> [] | Some i \<Rightarrow> map (Request_eject i) hs)\<rparr>"
  by (induction hs arbitrary: s) (auto simp: record_effect_def split: option.splits)

lemma ejectTriggeredInterceptors_eq:
  "ejectTriggeredInterceptors s =
     s\<lparr>axiosInterceptorEjectIds := [], trace := trace s @ eject_calls s\<rparr>"
  by (cases s)
    (auto simp: ejectTriggeredInterceptors_def eject_each_eq eject_calls_def split: option.splits)

lemma eject_calls_cong:
  "axiosInstance s' = axiosInstance s \<Longrightarrow> axiosInterceptorEjectIds s' = axiosInterceptorEjectIds s
   \<Longrightarrow> eject_calls s' = eject_calls s"
  by (simp add: eject_calls_def split: option.splits)

lemma uses_key_eject_calls [simp]: "list_all (uses_key k) (eject_calls s)"
  by (simp add: eject_calls_def list_all_iff split: option.splits) auto

subsection \<open>Persisting and \<open>setUser\<close>\<close>

text \<open>Whether persisting throws depends on the serializer and on the storage only.\<close>

lemma persist_fst:
  "fst (persistJWTTokenPayload g p s) =
     (case JSON_stringify g p of
        Inl e \<Rightarrow> Some e
      | Inr j \<Rightarrow> setItem_throws (storage (storageOptions s)))"
  by (simp add: persistJWTTokenPayload_def op_defs Let_def split: sum.splits option.splits)

lemma setUser_ok:
  assumes "JSON_stringify g p = Inr j" and "setItem_throws (storage (storageOptions s)) = None"
  shows "setUser g p s =
     (Fulfilled (),
      s\<lparr>storageOptions := (storageOptions s)\<lparr>storage := (storage (storageOptions s))
            \<lparr>items := (items (storage (storageOptions s)))(key (storageOptions s) \<mapsto> j)\<rparr>\<rparr>,
        authPayload := Some p,
        trace := trace s @ [Write_authPayload p, Storage_setItem (key (storageOptions s)) j,
                  Emit (SETUSER p),
                  Console_log ''The user payload has been successfully updated.'']\<rparr>)"
  using assms by (simp add: setUser_def persistJWTTokenPayload_def op_defs Let_def)

lemma setUser_fails:
  assumes "fst (persistJWTTokenPayload g p s) = Some e"
  shows "setUser g p s =
     (Rejected e,
      s\<lparr>authPayload := Some p,
        trace := trace s @ Write_authPayload p #
                  (case JSON_stringify g p of
                     Inl d \<Rightarrow> []
                   | Inr j \<Rightarrow> [Storage_setItem (key (storageOptions s)) j])
                  @ [Console_error (Thrown e)]\<rparr>)"
  using assms
  by (simp add: setUser_def persistJWTTokenPayload_def op_defs Let_def
        split: sum.splits option.splits)

lemma setUser_cases:
  "(\<exists>j. JSON_stringify g p = Inr j \<and> setItem_throws (storage (storageOptions s)) = None)
   \<or> (\<exists>e. fst (persistJWTTokenPayload g p s) = Some e)"
  by (cases "JSON_stringify g p"; cases "setItem_throws (storage (storageOptions s))")
    (auto simp: persist_fst)

subsection \<open>The two \<open>catch\<close> blocks and \<open>signOut\<close>\<close>

lemma signIn_catch_eq:
  "signIn_catch e s =
     (Fulfilled (),
      s\<lparr>storageOptions := (storageOptions s)\<lparr>storage := (storage (storageOptions s))
            \<lparr>items := (items (storage (storageOptions s)))(key (storageOptions s) := None)\<rparr>\<rparr>,
        user := None,
        trace := trace s @ [Console_error (Thrown e), Write_user None,
                  Storage_removeItem (key (storageOptions s))]\<rparr>)"
  by (simp add: signIn_catch_def op_defs Let_def)

lemma check_catch_eq:
  "check_catch e s =
     (Fulfilled (),
      s\<lparr>storageOptions := (storageOptions s)\<lparr>storage := (storage (storageOptions s))
            \<lparr>items := (items (storage (storageOptions s)))(key (storageOptions s) := None)\<rparr>\<rparr>,
        user := None,
        axiosInterceptorEjectIds := [],
        trace := trace s @ Console_error (Thrown e) # eject_calls s
                  @ [Storage_removeItem (key (storageOptions s)), Write_user None]\<rparr>)"
  by (cases s)
    (simp add: check_catch_def ejectTriggeredInterceptors_eq op_defs Let_def eject_calls_def
       split: option.splits)

lemma signOut_eq:
  "signOut t =
     ((case signOutCallback t of None \<Rightarrow> Fulfilled () | Some pr \<Rightarrow> pr),
      t\<lparr>storageOptions := (storageOptions t)\<lparr>storage := (storage (storageOptions t))
            \<lparr>items := (items (storage (storageOptions t)))(key (storageOptions t) := None)\<rparr>\<rparr>,
        user := None,
        axiosInterceptorEjectIds := [],
        trace := trace t @ [Storage_removeItem (key (storageOptions t)), Write_user None]
                  @ eject_calls t @ [Emit SIGNOUT]
                  @ (case signOutCallback t of None \<Rightarrow> [] | Some pr \<Rightarrow> [Call_signOutCallback])\<rparr>)"
proof -
  define t2 where "t2 = write_user None (storage_removeItem t)"
  have ec: "eject_calls t2 = eject_calls t"
    by (rule eject_calls_cong) (simp_all add: t2_def op_defs Let_def)
  show ?thesis
    unfolding signOut_def Let_def t2_def [symmetric] ejectTriggeredInterceptors_eq ec
    by (cases t) (simp add: t2_def op_defs Let_def split: option.splits)
qed

subsection \<open>The outcomes of the expiry check\<close>

lemma check_decoder_throws:
  assumes "authPayload s = Some p" and "accessToken p \<noteq> []"
    and "decodeJwt g (accessToken p) = Decode_throws e"
  shows "checkAccessTokenIsExpired g h s = (Rejected e, s)"
  using assms by (simp add: checkAccessTokenIsExpired_def)

lemma check_refresh_rejected:
  assumes "authPayload s = Some p" and "accessToken p \<noteq> []"
    and "decodeJwt g (accessToken p) = Decoded jwt"
    and "is_expired (Date_now g) (expiresIn (tryOverrideTokenExpiration p jwt))"
    and "h (refreshToken p) = Rejected e"
  shows "checkAccessTokenIsExpired g h s =
     (Fulfilled (),
      s\<lparr>storageOptions := (storageOptions s)\<lparr>storage := (storage (storageOptions s))
            \<lparr>items := (items (storage (storageOptions s)))(key (storageOptions s) := None)\<rparr>\<rparr>,
        user := None,
        authPayload := Some (tryOverrideTokenExpiration p jwt),
        axiosInterceptorEjectIds := [],
        trace := trace s @ [Call_refresh (refreshToken p), Console_error (Thrown e)]
                  @ eject_calls s
                  @ [Storage_removeItem (key (storageOptions s)), Write_user None]\<rparr>)"
proof -
  define s2 where "s2 = record_effect (Call_refresh (refreshToken p))
      (s\<lparr>authPayload := Some (tryOverrideTokenExpiration p jwt)\<rparr>)"
  have rt: "refreshToken (tryOverrideTokenExpiration p jwt) = refreshToken p"
    by (simp add: tryOverrideTokenExpiration_def)
  have ec: "eject_calls s2 = eject_calls s"
    by (rule eject_calls_cong) (simp_all add: s2_def record_effect_def)
  have "checkAccessTokenIsExpired g h s = check_catch e s2"
    using assms by (simp add: checkAccessTokenIsExpired_def Let_def rt s2_def)
  then show ?thesis
    by (simp add: check_catch_eq ec) (simp add: s2_def record_effect_def)
qed

subsection \<open>Every operation uses the configured key and keeps it\<close>

lemma setUser_uses_key:
  "list_all (uses_key (key (storageOptions s))) (new_effects s (snd (setUser g p s)))
   \<and> key (storageOptions (snd (setUser g p s))) = key (storageOptions s)"
  using setUser_cases [of g p s]
  by (auto simp: setUser_ok setUser_fails split: sum.splits)

lemma getUser_uses_key:
  "list_all (uses_key (key (storageOptions s))) (new_effects s (snd (getUser s)))
   \<and> key (storageOptions (snd (getUser s))) = key (storageOptions s)"
  by (simp add: getUser_def Let_def op_defs split: sum.splits option.splits)

lemma signOut_uses_key:
  "list_all (uses_key (key (storageOptions s))) (new_effects s (snd (signOut s)))
   \<and> key (storageOptions (snd (signOut s))) = key (storageOptions s)"
  by (simp add: signOut_eq split: option.splits)

lemma signIn_uses_key:
  "list_all (uses_key (key (storageOptions s))) (new_effects s (snd (signIn g u cb s)))
   \<and> key (storageOptions (snd (signIn g u cb s))) = key (storageOptions s)"
proof (cases "authorize s u")
  case Pending
  then show ?thesis by (simp add: signIn_def Let_def op_defs)
next
  case (Rejected e)
  then show ?thesis by (simp add: signIn_def Let_def signIn_catch_eq op_defs)
next
  case (Fulfilled po)
  show ?thesis
  proof (cases po)
    case None
    with Fulfilled show ?thesis by (simp add: signIn_def Let_def op_defs)
  next
    case (Some p)
    define s1 where "s1 = write_user (Some u) (record_effect (Call_authorize u) s)"
    define done_msg where "done_msg = ''The user has beed successfully signed in''"
    have s1: "key (storageOptions s1) = key (storageOptions s)"
      "trace s1 = trace s @ [Call_authorize u, Write_user (Some u)]"
      by (simp_all add: s1_def op_defs)
    have sI: "signIn g u cb s =
        (case setUser g p s1 of
           (Pending, s2) \<Rightarrow> (Pending, s2)
         | (Rejected e, s2) \<Rightarrow> signIn_catch e s2
         | (Fulfilled x, s2) \<Rightarrow>
             (case cb of
                None \<Rightarrow> (Fulfilled (), console_log done_msg (emit (SIGNIN u p) s2))
              | Some f \<Rightarrow>
                  (case f p of
                     None \<Rightarrow>
                       (Fulfilled (),
                        record_effect (Call_onSuccess p)
                          (console_log done_msg (emit (SIGNIN u p) s2)))
                   | Some e \<Rightarrow>
                       signIn_catch e
                         (record_effect (Call_onSuccess p)
                            (console_log done_msg (emit (SIGNIN u p) s2))))))"
      unfolding signIn_def Let_def s1_def done_msg_def using Fulfilled Some by simp
    from setUser_cases [of g p s1] show ?thesis
    proof (elim disjE exE conjE)
      fix j
      assume "JSON_stringify g p = Inr j" "setItem_throws (storage (storageOptions s1)) = None"
      from setUser_ok [OF this] s1 show ?thesis
        by (simp add: sI signIn_catch_eq op_defs split: option.splits)
    next
      fix e
      assume "fst (persistJWTTokenPayload g p s1) = Some e"
      from setUser_fails [OF this] s1 show ?thesis
        by (simp add: sI signIn_catch_eq op_defs split: sum.splits)
    qed
  qed
qed

lemma check_uses_key:
  "list_all (uses_key (key (storageOptions s)))
     (new_effects s (snd (checkAccessTokenIsExpired g h s)))
   \<and> key (storageOptions (snd (checkAccessTokenIsExpired g h s))) = key (storageOptions s)"
proof (cases "authPayload s")
  case None
  then show ?thesis by (simp add: checkAccessTokenIsExpired_def)
next
  case (Some p)
  show ?thesis
  proof (cases "decodeJwt g (accessToken p)")
    case (Decode_throws e)
    with Some show ?thesis by (simp add: checkAccessTokenIsExpired_def)
  next
    case Decode_null
    with Some show ?thesis by (simp add: checkAccessTokenIsExpired_def)
  next
    case (Decoded jwt)
    define p1 where "p1 = tryOverrideTokenExpiration p jwt"
    define s1 where "s1 = s\<lparr>authPayload := Some p1\<rparr>"
    define s2 where "s2 = record_effect (Call_refresh (refreshToken p1)) s1"
    have s2: "key (storageOptions s2) = key (storageOptions s)"
      "trace s2 = trace s @ [Call_refresh (refreshToken p1)]"
      "trace s1 = trace s" "key (storageOptions s1) = key (storageOptions s)"
      by (simp_all add: s2_def s1_def op_defs)
    have chk: "checkAccessTokenIsExpired g h s =
        (if accessToken p = [] then (Fulfilled (), s)
         else if is_expired (Date_now g) (expiresIn p1) then
           (case h (refreshToken p1) of
              Pending \<Rightarrow> (Pending, s2)
            | Rejected e \<Rightarrow> check_catch e s2
            | Fulfilled newPayload \<Rightarrow>
                (case setUser g newPayload s2 of
                   (Rejected e, s3) \<Rightarrow> check_catch e s3
                 | (Pending, s3) \<Rightarrow> (Pending, s3)
                 | (Fulfilled x, s3) \<Rightarrow> (Fulfilled (), s3)))
         else (Fulfilled (), s1))"
      unfolding checkAccessTokenIsExpired_def Let_def p1_def s1_def s2_def
      using Some Decoded by simp
    show ?thesis
    proof (cases "h (refreshToken p1)")
      case Pending
      with s2 show ?thesis by (simp add: chk)
    next
      case (Rejected e)
      with s2 show ?thesis by (simp add: chk check_catch_eq)
    next
      case (Fulfilled q)
      from setUser_cases [of g q s2] show ?thesis
      proof (elim disjE exE conjE)
        fix j
        assume "JSON_stringify g q = Inr j" "setItem_throws (storage (storageOptions s2)) = None"
        from setUser_ok [OF this] Fulfilled s2 show ?thesis
          by (simp add: chk)
      next
        fix e
        assume "fst (persistJWTTokenPayload g q s2) = Some e"
        from setUser_fails [OF this] Fulfilled s2 show ?thesis
          by (simp add: chk check_catch_eq split: sum.splits)
      qed
    qed
  qed
qed

subsection \<open>The sample session\<close>

lemma bob_signed_in_eq:
  "bob_signed_in =
     \<lparr>authorize = sample_authorize, signOutCallback = None,
      storageOptions = \<lparr>key = ''token'',
         storage = \<lparr>items = [''token'' \<mapsto> ''{accessToken:a,refreshToken:b}''],
                    getItem_throws = None, setItem_throws = None\<rparr>\<rparr>,
      user = Some bob, authPayload = Some payload_ab,
      axiosInstance = None, axiosInterceptorEjectIds = [],
      trace = [Call_authorize bob, Write_user (Some bob), Write_authPayload payload_ab,
               Storage_setItem ''token'' ''{accessToken:a,refreshToken:b}'',
               Emit (SETUSER payload_ab),
               Console_log ''The user payload has been successfully updated.'',
               Emit (SIGNIN bob payload_ab),
               Console_log ''The user has beed successfully signed in'']\<rparr>"
  by (simp add: bob_def payload_ab_def sample_stringify_def sample_decodeJwt_def
      sample_globals_def empty_storage_def sample_authorize_def plain_options_def
      fresh_manager_def bob_signed_in_def setStorageOptions_def constructor_def
      persistJWTTokenPayload_def setUser_def signIn_catch_def signIn_def Let_def op_defs)

section \<open>The claims\<close>

subsection \<open>C1: a malformed access token\<close>

text \<open>
  C1 says that \<open>checkAccessTokenIsExpired\<close> completes as a no-op, without throwing or
  rejecting, when the decoder cannot decode the current access token. The source guards
  the decoder's result with \<open>payload === null\<close>, but \<open>jose.decodeJwt\<close> reports a token
  it cannot decode by throwing, and the call is outside any \<open>try\<close>. On the payload of the
  repository's own bootstrap code (\<open>accessToken: "access token"\<close>) the operation rejects
  with the decoder's error; the state is left as it was and the refresh function is not
  called.
\<close>

theorem C1_malformed_token_rejects:
  "authPayload malformed_session = Some payload_malformed
   \<and> decodeJwt sample_globals (accessToken payload_malformed) = Decode_throws (Error ''JWTInvalid'')
   \<and> checkAccessTokenIsExpired sample_globals refresh_ok malformed_session
       = (Rejected (Error ''JWTInvalid''), malformed_session)"
proof -
  have p: "authPayload malformed_session = Some payload_malformed"
    by (simp add: malformed_session_def bob_signed_in_eq)
      (simp add: setUser_def persistJWTTokenPayload_def op_defs bob_def payload_ab_def
          payload_malformed_def sample_stringify_def sample_decodeJwt_def sample_globals_def
          empty_storage_def sample_authorize_def plain_options_def fresh_manager_def
          bob_signed_in_def malformed_session_def Let_def)
  have n: "accessToken payload_malformed \<noteq> []"
    by (simp add: payload_malformed_def)
  have d: "decodeJwt sample_globals (accessToken payload_malformed)
      = Decode_throws (Error ''JWTInvalid'')"
    by (simp add: payload_malformed_def sample_stringify_def sample_decodeJwt_def
        sample_globals_def)
  from check_decoder_throws [OF p n d] p d show ?thesis by simp
qed

subsection \<open>C2: \<open>getUser\<close> when the storage cannot be read\<close>

text \<open>
  C2 says that \<open>getUser\<close> resolves to \<open>null\<close> when the read of the storage throws. The
  \<open>catch\<close> block calls \<open>reject(error)\<close> before \<open>resolve(null)\<close>; the first call settles the
  promise, so \<open>getUser\<close> rejects with the storage's error.
\<close>

theorem C2_getUser_read_failure_rejects:
  "getItem (storage (storageOptions unreadable_manager)) (key (storageOptions unreadable_manager))
     = Inl (Error ''SecurityError'')
   \<and> fst (getUser unreadable_manager) = Rejected (Error ''SecurityError'')
   \<and> fst (getUser unreadable_manager) \<noteq> Fulfilled None"
  by (simp add: bob_def payload_ab_def sample_stringify_def sample_decodeJwt_def
      sample_globals_def unreadable_storage_def sample_authorize_def plain_options_def
      unreadable_manager_def setStorageOptions_def constructor_def persistJWTTokenPayload_def
      setUser_def signIn_catch_def signIn_def getUser_def Let_def op_defs)

subsection \<open>C3: \<open>signIn\<close> when \<open>authorize\<close> fails\<close>

text \<open>
  C3 says that \<open>signIn\<close> resolves, clears the in-memory user and removes the stored token
  when \<open>authorize\<close> rejects or resolves to a falsy value. With \<open>bob\<close> signed in and
  \<open>authorize\<close> resolving to a falsy value for \<open>alice\<close>, \<open>signIn(alice)\<close> resolves, but \<open>bob\<close>
  stays the in-memory user and the token stays in the storage: the guard \<open>if (!payload)\<close>
  logs and returns before any state is touched.
\<close>

theorem C3_falsy_authorize_counterexample:
  "authorize bob_signed_in alice = Fulfilled None
   \<and> fst (signIn sample_globals alice None bob_signed_in) = Fulfilled ()
   \<and> user (snd (signIn sample_globals alice None bob_signed_in)) = Some bob
   \<and> stored_token (snd (signIn sample_globals alice None bob_signed_in))
       = Some ''{accessToken:a,refreshToken:b}''"
  by (simp add: bob_signed_in_eq) (simp add: alice_def bob_def payload_ab_def
      sample_stringify_def sample_decodeJwt_def sample_globals_def empty_storage_def
      sample_authorize_def plain_options_def fresh_manager_def bob_signed_in_def
      setStorageOptions_def constructor_def persistJWTTokenPayload_def setUser_def
      signIn_catch_def signIn_def Let_def op_defs stored_token_def)

text \<open>
  C3 as amended: when \<open>authorize\<close> rejects, \<open>signIn\<close> resolves, the in-memory user is
  absent afterwards and no token is stored under the configured key; when \<open>authorize\<close>
  resolves to a falsy value, \<open>signIn\<close> resolves and leaves the in-memory user, the in-memory
  payload and the storage as they were. Both hold with or without a success callback.
\<close>

theorem C3_signIn_failure:
  assumes "authorize s u = Rejected e" and "authorize t v = Fulfilled None"
  shows "fst (signIn g u cb s) = Fulfilled ()
       \<and> user (snd (signIn g u cb s)) = None
       \<and> stored_token (snd (signIn g u cb s)) = None
       \<and> fst (signIn g v cb t) = Fulfilled ()
       \<and> user (snd (signIn g v cb t)) = user t
       \<and> authPayload (snd (signIn g v cb t)) = authPayload t
       \<and> storageOptions (snd (signIn g v cb t)) = storageOptions t"
  using assms by (simp add: signIn_def signIn_catch_eq op_defs stored_token_def Let_def)

text \<open>The amended C3 at work: \<open>carol\<close> is rejected, \<open>alice\<close> gets a falsy value.\<close>

theorem C3_signIn_failure_witness:
  "authorize bob_signed_in carol = Rejected (Error ''401'')
   \<and> authorize bob_signed_in alice = Fulfilled None
   \<and> user bob_signed_in = Some bob
   \<and> stored_token bob_signed_in = Some ''{accessToken:a,refreshToken:b}''
   \<and> fst (signIn sample_globals carol None bob_signed_in) = Fulfilled ()
   \<and> user (snd (signIn sample_globals carol None bob_signed_in)) = None
   \<and> stored_token (snd (signIn sample_globals carol None bob_signed_in)) = None
   \<and> fst (signIn sample_globals alice None bob_signed_in) = Fulfilled ()
   \<and> user (snd (signIn sample_globals alice None bob_signed_in)) = Some bob"
  using C3_signIn_failure [of bob_signed_in carol "Error ''401''" bob_signed_in alice
      sample_globals None]
  by (simp add: bob_signed_in_eq stored_token_def) (simp add: alice_def bob_def payload_ab_def
      sample_stringify_def sample_decodeJwt_def sample_globals_def empty_storage_def
      sample_authorize_def carol_def plain_options_def fresh_manager_def bob_signed_in_def)

subsection \<open>C4: the storage key\<close>

text \<open>
  C4 says that the default key is \<open>"token"\<close> and that a scope supplied at construction
  always yields the key \<open>"<scope>:<key>"\<close>, so that \<open>scope = "app"\<close> with the default key
  gives \<open>"app:token"\<close>. The constructor calls \<open>setStorageOptions\<close> only when
  \<open>storageOptions\<close> is supplied: with \<open>scope = "app"\<close> alone the key stays \<open>"token"\<close>.
  And \<open>setStorageOptions\<close> tests the scope for truthiness: with an empty scope the key
  gets no prefix.
\<close>

theorem C4_scope_counterexample:
  "opt_scope scope_only_options = Some ''app''
   \<and> key (storageOptions (constructor empty_storage scope_only_options)) = ''token''
   \<and> key (storageOptions (constructor empty_storage scope_only_options)) \<noteq> ''app:token''
   \<and> opt_scope empty_scope_options = Some []
   \<and> key (storageOptions (constructor empty_storage empty_scope_options)) = ''token''
   \<and> key (storageOptions (constructor empty_storage empty_scope_options)) \<noteq> '':token''"
  by (simp add: payload_ab_def empty_storage_def sample_authorize_def plain_options_def
      scope_only_options_def empty_scope_options_def setStorageOptions_def constructor_def
      Let_def)

text \<open>
  C4 as amended: when \<open>storageOptions\<close> and a non-empty scope are both supplied, the
  configured key is \<open>"<scope>:<key>"\<close>, where \<open><key>\<close> is the supplied non-empty key and
  \<open>"token"\<close> otherwise; from any state with that configured key, each of \<open>signIn\<close>,
  \<open>setUser\<close>, \<open>getUser\<close>, \<open>checkAccessTokenIsExpired\<close> and \<open>signOut\<close> makes its storage
  reads, writes and removals with that key and leaves it configured. When no scope is
  supplied, the key is the supplied non-empty key and \<open>"token"\<close> by default.
\<close>

theorem C4_effective_key:
  assumes "opt_storageOptions opts = Some so" and "opt_scope opts = Some sc" and "sc \<noteq> []"
    and "key (storageOptions s) = key (storageOptions (constructor ls opts))"
    and "opt_scope opts' = None"
  shows "key (storageOptions (constructor ls opts)) =
           sc @ '':'' @ (case opt_key so of
                           None \<Rightarrow> ''token''
                         | Some k \<Rightarrow> if k = [] then ''token'' else k)
       \<and> keeps_key (key (storageOptions (constructor ls opts))) s (snd (signIn g u cb s))
       \<and> keeps_key (key (storageOptions (constructor ls opts))) s (snd (setUser g p s))
       \<and> keeps_key (key (storageOptions (constructor ls opts))) s (snd (getUser s))
       \<and> keeps_key (key (storageOptions (constructor ls opts))) s
           (snd (checkAccessTokenIsExpired g h s))
       \<and> keeps_key (key (storageOptions (constructor ls opts))) s (snd (signOut s))
       \<and> key (storageOptions (constructor ls' opts')) =
           (case opt_storageOptions opts' of
              None \<Rightarrow> ''token''
            | Some so' \<Rightarrow>
                (case opt_key so' of
                   None \<Rightarrow> ''token''
                 | Some k \<Rightarrow> if k = [] then ''token'' else k))"
proof -
  have k: "key (storageOptions (constructor ls opts)) =
           sc @ '':'' @ (case opt_key so of
                           None \<Rightarrow> ''token''
                         | Some k \<Rightarrow> if k = [] then ''token'' else k)"
    using assms(1-3)
    by (simp add: constructor_def setStorageOptions_def Let_def split: option.splits)
  have d: "key (storageOptions (constructor ls' opts')) =
           (case opt_storageOptions opts' of
              None \<Rightarrow> ''token''
            | Some so' \<Rightarrow>
                (case opt_key so' of
                   None \<Rightarrow> ''token''
                 | Some k \<Rightarrow> if k = [] then ''token'' else k))"
    using assms(5)
    by (simp add: constructor_def setStorageOptions_def Let_def split: option.splits)
  show ?thesis
    unfolding keeps_key_def assms(4) [symmetric]
    using k d signIn_uses_key [of s g u cb] setUser_uses_key [of s g p] getUser_uses_key [of s]
      check_uses_key [of s g h] signOut_uses_key [of s] assms(4)
    by simp
qed

text \<open>The amended C4 at work: \<open>scope = "app"\<close> with \<open>storageOptions = {}\<close>.\<close>

theorem C4_effective_key_witness:
  "opt_storageOptions scoped_options = Some \<lparr>opt_key = None, opt_storage = None\<rparr>
   \<and> opt_scope scoped_options = Some ''app''
   \<and> opt_scope plain_options = None
   \<and> key (storageOptions (constructor empty_storage scoped_options)) = ''app:token''
   \<and> keeps_key ''app:token'' (constructor empty_storage scoped_options)
        (snd (signIn sample_globals bob None (constructor empty_storage scoped_options)))
   \<and> stored_token (snd (signIn sample_globals bob None (constructor empty_storage scoped_options)))
        = Some ''{accessToken:a,refreshToken:b}''
   \<and> key (storageOptions (constructor empty_storage plain_options)) = ''token''"
  using C4_effective_key [of scoped_options "\<lparr>opt_key = None, opt_storage = None\<rparr>" "''app''"
      "constructor empty_storage scoped_options" empty_storage plain_options sample_globals bob
      None payload_ab refresh_ok empty_storage]
  by (simp add: bob_def payload_ab_def sample_stringify_def sample_decodeJwt_def
      sample_globals_def empty_storage_def sample_authorize_def plain_options_def
      scoped_options_def refresh_ok_def new_effects_def setStorageOptions_def constructor_def
      persistJWTTokenPayload_def setUser_def signIn_catch_def signIn_def uses_key_def
      keeps_key_def Let_def op_defs stored_token_def)

subsection \<open>C5: a successful \<open>signIn\<close>\<close>

text \<open>
  C5: when \<open>authorize\<close> resolves to a payload \<open>p\<close>, \<open>JSON.stringify\<close> returns \<open>j\<close> for it and
  the storage accepts the write, \<open>signIn(u)\<close> resolves; afterwards the in-memory user is
  \<open>u\<close>, the in-memory payload is \<open>p\<close>, the value stored under the configured key is \<open>j\<close>,
  and the steps taken are, in this order: the call of \<open>authorize\<close>, the assignment of the
  user, the assignment of the payload, the write to the storage, the \<open>SETUSER\<close> event, and
  the \<open>SIGNIN\<close> event carrying \<open>u\<close> and \<open>p\<close>. The user is assigned before the write.
\<close>

theorem C5_signIn_success:
  assumes "authorize s u = Fulfilled (Some p)"
    and "JSON_stringify g p = Inr j"
    and "setItem_throws (storage (storageOptions s)) = None"
  shows "fst (signIn g u None s) = Fulfilled ()
       \<and> user (snd (signIn g u None s)) = Some u
       \<and> authPayload (snd (signIn g u None s)) = Some p
       \<and> stored_token (snd (signIn g u None s)) = Some j
       \<and> new_effects s (snd (signIn g u None s)) =
           [Call_authorize u, Write_user (Some u), Write_authPayload p,
            Storage_setItem (key (storageOptions s)) j, Emit (SETUSER p),
            Console_log ''The user payload has been successfully updated.'',
            Emit (SIGNIN u p),
            Console_log ''The user has beed successfully signed in'']"
  using assms by (simp add: signIn_def setUser_ok op_defs stored_token_def Let_def)

text \<open>C5 at work: \<open>bob\<close> signs in on a fresh manager.\<close>

theorem C5_signIn_success_witness:
  "authorize fresh_manager bob = Fulfilled (Some payload_ab)
   \<and> JSON_stringify sample_globals payload_ab = Inr ''{accessToken:a,refreshToken:b}''
   \<and> setItem_throws (storage (storageOptions fresh_manager)) = None
   \<and> fst (signIn sample_globals bob None fresh_manager) = Fulfilled ()
   \<and> user (snd (signIn sample_globals bob None fresh_manager)) = Some bob
   \<and> authPayload (snd (signIn sample_globals bob None fresh_manager)) = Some payload_ab
   \<and> stored_token (snd (signIn sample_globals bob None fresh_manager))
       = Some ''{accessToken:a,refreshToken:b}''
   \<and> new_effects fresh_manager (snd (signIn sample_globals bob None fresh_manager)) =
         [Call_authorize bob, Write_user (Some bob), Write_authPayload payload_ab,
          Storage_setItem ''token'' ''{accessToken:a,refreshToken:b}'',
          Emit (SETUSER payload_ab),
          Console_log ''The user payload has been successfully updated.'',
          Emit (SIGNIN bob payload_ab),
          Console_log ''The user has beed successfully signed in'']"
proof -
  have h1: "authorize fresh_manager bob = Fulfilled (Some payload_ab)"
    by (simp add: bob_def payload_ab_def empty_storage_def sample_authorize_def
        plain_options_def fresh_manager_def setStorageOptions_def constructor_def Let_def)
  have h2: "JSON_stringify sample_globals payload_ab = Inr ''{accessToken:a,refreshToken:b}''"
    by (simp add: payload_ab_def sample_stringify_def sample_decodeJwt_def sample_globals_def)
  have h3: "setItem_throws (storage (storageOptions fresh_manager)) = None"
    by (simp add: payload_ab_def empty_storage_def sample_authorize_def plain_options_def
        fresh_manager_def setStorageOptions_def constructor_def Let_def)
  have k: "key (storageOptions fresh_manager) = ''token''"
    by (simp add: payload_ab_def empty_storage_def sample_authorize_def plain_options_def
        fresh_manager_def setStorageOptions_def constructor_def Let_def)
  show ?thesis
    using C5_signIn_success [OF h1 h2 h3] h1 h2 h3 by (simp add: k)
qed

subsection \<open>C6: forced teardown against \<open>signOut\<close>\<close>

text \<open>
  C6 says that a forced teardown (expired token, refresh function rejecting) removes the
  stored token, clears the in-memory user and detaches all middleware handles, without a
  \<open>SIGNOUT\<close> event and without the sign-out callback. \<open>applyAxiosMiddleware\<close> overwrites
  \<open>this.axiosInstance\<close> on every call, and \<open>ejectTriggeredInterceptors\<close> sends every
  recorded handle to \<open>interceptors.request.eject\<close> of that one instance. After the
  middleware was applied to client \<open>1\<close> (handles \<open>10\<close>, \<open>11\<close>) and then to client \<open>2\<close>
  (handles \<open>20\<close>, \<open>21\<close>), the teardown removes the token, clears the user, empties the
  registry and emits no \<open>SIGNOUT\<close>, but all four ejects go to client \<open>2\<close>: no eject
  reaches client \<open>1\<close>, whose two handles stay attached.
\<close>

theorem C6_teardown_leaves_first_client_attached:
  "authPayload two_clients_session = Some payload_old
   \<and> axiosInstance two_clients_session = Some 2
   \<and> axiosInterceptorEjectIds two_clients_session = [10, 11, 20, 21]
   \<and> fst (checkAccessTokenIsExpired sample_globals refresh_rejects two_clients_session)
       = Fulfilled ()
   \<and> stored_token (snd (checkAccessTokenIsExpired sample_globals refresh_rejects
         two_clients_session)) = None
   \<and> user (snd (checkAccessTokenIsExpired sample_globals refresh_rejects two_clients_session))
       = None
   \<and> new_effects two_clients_session
        (snd (checkAccessTokenIsExpired sample_globals refresh_rejects two_clients_session)) =
        [Call_refresh ''r0'', Console_error (Thrown (Error ''refresh failed'')),
         Request_eject 2 10, Request_eject 2 11, Request_eject 2 20, Request_eject 2 21,
         Storage_removeItem ''token'', Write_user None]
   \<and> Request_eject 1 10 \<notin> set (new_effects two_clients_session
        (snd (checkAccessTokenIsExpired sample_globals refresh_rejects two_clients_session)))
   \<and> Request_eject 1 11 \<notin> set (new_effects two_clients_session
        (snd (checkAccessTokenIsExpired sample_globals refresh_rejects two_clients_session)))"
proof -
  have e: "two_clients_session =
      bob_signed_in\<lparr>storageOptions := \<lparr>key = ''token'',
         storage = \<lparr>items = [''token'' \<mapsto> ''{accessToken:expired.jwt,refreshToken:r0}''],
                    getItem_throws = None, setItem_throws = None\<rparr>\<rparr>,
        authPayload := Some payload_old, axiosInstance := Some 2,
        axiosInterceptorEjectIds := [10, 11, 20, 21],
        trace := trace bob_signed_in @ [Write_authPayload payload_old,
               Storage_setItem ''token'' ''{accessToken:expired.jwt,refreshToken:r0}'',
               Emit (SETUSER payload_old),
               Console_log ''The user payload has been successfully updated.'']\<rparr>"
    unfolding two_clients_session_def
    by (simp add: bob_signed_in_eq)
      (simp add: payload_old_def sample_stringify_def sample_globals_def setUser_def
        persistJWTTokenPayload_def applyAxiosMiddleware_def Let_def op_defs)
  have h1: "authPayload two_clients_session = Some payload_old" by (simp add: e)
  have h2: "accessToken payload_old \<noteq> []" by (simp add: payload_old_def)
  have h3: "decodeJwt sample_globals (accessToken payload_old) = Decoded \<lparr>exp = Some 1000\<rparr>"
    by (simp add: payload_old_def sample_decodeJwt_def sample_globals_def)
  have h4: "is_expired (Date_now sample_globals)
        (expiresIn (tryOverrideTokenExpiration payload_old \<lparr>exp = Some 1000\<rparr>))"
    by (simp add: payload_old_def sample_globals_def truthy_def is_expired_def
        tryOverrideTokenExpiration_def)
  have h5: "refresh_rejects (refreshToken payload_old) = Rejected (Error ''refresh failed'')"
    by (simp add: refresh_rejects_def)
  have m: "eject_calls two_clients_session =
        [Request_eject 2 10, Request_eject 2 11, Request_eject 2 20, Request_eject 2 21]"
      "key (storageOptions two_clients_session) = ''token''"
      "refreshToken payload_old = ''r0''"
      "axiosInterceptorEjectIds two_clients_session = [10, 11, 20, 21]"
      "axiosInstance two_clients_session = Some 2"
    by (simp_all add: e eject_calls_def bob_signed_in_eq) (simp add: payload_old_def)
  show ?thesis
    using h1
    by (simp add: check_refresh_rejected [of two_clients_session payload_old sample_globals
          "\<lparr>exp = Some 1000\<rparr>" refresh_rejects "Error ''refresh failed''",
          OF h1 h2 h3 h4 h5] m stored_token_def)
qed

subsection \<open>C7: \<open>expiresIn\<close> is not overwritten\<close>

text \<open>
  C7 says that no call of \<open>checkAccessTokenIsExpired\<close> changes an \<open>expiresIn\<close> that has
  been set, whether supplied or derived. \<open>tryOverrideTokenExpiration\<close> tests \<open>expiresIn\<close>
  for truthiness: a payload supplied with \<open>expiresIn = 0\<close> counts as unset, and the check
  replaces the \<open>0\<close> by the expiry claim of the token.
\<close>

theorem C7_zero_expiresIn_counterexample:
  "authPayload zero_session = Some payload_zero
   \<and> expiresIn payload_zero = Some 0
   \<and> fst (checkAccessTokenIsExpired sample_globals refresh_ok zero_session) = Fulfilled ()
   \<and> authPayload (snd (checkAccessTokenIsExpired sample_globals refresh_ok zero_session))
       = Some (payload_zero\<lparr>expiresIn := Some 9000\<rparr>)
   \<and> new_effects zero_session
        (snd (checkAccessTokenIsExpired sample_globals refresh_ok zero_session)) = []"
  by (simp add: bob_def payload_ab_def payload_zero_def sample_stringify_def
      sample_decodeJwt_def sample_globals_def empty_storage_def sample_authorize_def
      plain_options_def fresh_manager_def bob_signed_in_def zero_session_def refresh_ok_def
      new_effects_def setStorageOptions_def constructor_def persistJWTTokenPayload_def
      truthy_def is_expired_def tryOverrideTokenExpiration_def ejectTriggeredInterceptors_def
      setUser_def signIn_catch_def signIn_def check_catch_def checkAccessTokenIsExpired_def
      Let_def op_defs)

text \<open>
  C7 as amended: a payload whose \<open>expiresIn\<close> is set to a value other than zero is left
  as it is by \<open>tryOverrideTokenExpiration\<close>, whatever the decoded claims; and after
  \<open>checkAccessTokenIsExpired\<close> the manager holds either this payload, unchanged, or the
  payload the refresh function resolved to.
\<close>

theorem C7_expiresIn_kept:
  assumes "authPayload s = Some p" and "expiresIn p = Some t" and "t \<noteq> 0"
  shows "tryOverrideTokenExpiration p jwt = p
       \<and> (authPayload (snd (checkAccessTokenIsExpired g h s)) = Some p
          \<or> (\<exists>q. h (refreshToken p) = Fulfilled q
                 \<and> authPayload (snd (checkAccessTokenIsExpired g h s)) = Some q))"
proof -
  have keep: "tryOverrideTokenExpiration p jwt' = p" for jwt'
    using assms by (simp add: tryOverrideTokenExpiration_def truthy_def)
  have same: "s\<lparr>authPayload := Some p\<rparr> = s"
    using assms(1) by (cases s) simp
  define s2 where "s2 = record_effect (Call_refresh (refreshToken p)) s"
  have s2: "authPayload s2 = Some p"
    using assms(1) by (simp add: s2_def record_effect_def)
  have refreshed: "authPayload (snd (case setUser g q s2 of
            (Rejected e, s3) \<Rightarrow> check_catch e s3
          | (Pending, s3) \<Rightarrow> (Pending, s3)
          | (Fulfilled x, s3) \<Rightarrow> (Fulfilled (), s3))) = Some q" for q
    using setUser_cases [of g q s2]
    by (auto simp: setUser_ok setUser_fails check_catch_eq)
  show ?thesis
  proof (cases "h (refreshToken p)")
    case (Fulfilled q)
    then show ?thesis
      using assms(1) keep refreshed [of q]
      by (auto simp: checkAccessTokenIsExpired_def Let_def s2_def same
            split: decode_result.splits)
  next
    case Pending
    then show ?thesis
      using assms(1) keep s2
      by (auto simp: checkAccessTokenIsExpired_def Let_def s2_def same
            split: decode_result.splits)
  next
    case (Rejected e)
    then show ?thesis
      using assms(1) keep s2
      by (auto simp: checkAccessTokenIsExpired_def Let_def check_catch_eq s2_def same
            split: decode_result.splits)
  qed
qed

text \<open>
  The amended C7 at work: a payload supplied with \<open>expiresIn = 5000\<close> whose token carries
  the expiry claim \<open>9000\<close>.
\<close>

theorem C7_expiresIn_kept_witness:
  "authPayload fixed_session = Some payload_fixed
   \<and> expiresIn payload_fixed = Some 5000
   \<and> decodeJwt sample_globals (accessToken payload_fixed) = Decoded \<lparr>exp = Some 9000\<rparr>
   \<and> tryOverrideTokenExpiration payload_fixed \<lparr>exp = Some 9000\<rparr> = payload_fixed
   \<and> authPayload (snd (checkAccessTokenIsExpired sample_globals refresh_ok fixed_session))
       = Some payload_fixed"
proof -
  have h1: "authPayload fixed_session = Some payload_fixed"
    by (simp add: bob_def payload_ab_def payload_fixed_def sample_stringify_def
        sample_decodeJwt_def sample_globals_def empty_storage_def sample_authorize_def
        plain_options_def fresh_manager_def bob_signed_in_def fixed_session_def
        setStorageOptions_def constructor_def persistJWTTokenPayload_def setUser_def
        signIn_catch_def signIn_def Let_def op_defs)
  have h2: "expiresIn payload_fixed = Some 5000" by (simp add: payload_fixed_def)
  have h3: "(5000::int) \<noteq> 0" by simp
  have d: "decodeJwt sample_globals (accessToken payload_fixed) = Decoded \<lparr>exp = Some 9000\<rparr>"
    by (simp add: payload_fixed_def sample_stringify_def sample_decodeJwt_def sample_globals_def)
  have r: "authPayload (snd (checkAccessTokenIsExpired sample_globals refresh_ok fixed_session))
       = Some payload_fixed"
    by (simp add: bob_def payload_ab_def payload_fixed_def sample_stringify_def
        sample_decodeJwt_def sample_globals_def empty_storage_def sample_authorize_def
        plain_options_def fresh_manager_def bob_signed_in_def fixed_session_def refresh_ok_def
        setStorageOptions_def constructor_def persistJWTTokenPayload_def truthy_def
        is_expired_def tryOverrideTokenExpiration_def ejectTriggeredInterceptors_def setUser_def
        signIn_catch_def signIn_def check_catch_def checkAccessTokenIsExpired_def Let_def
        op_defs)
  show ?thesis
    using C7_expiresIn_kept [OF h1 h2 h3, of "\<lparr>exp = Some 9000\<rparr>" sample_globals refresh_ok]
      h1 h2 d r
    by simp
qed

subsection \<open>C8: \<open>getUser\<close> follows the storage\<close>

text \<open>
  C8: when the read of the configured key returns no value, \<open>getUser\<close> resolves to the
  absent value, whatever the in-memory user is; when the read returns a value, \<open>getUser\<close>
  resolves to the in-memory user, and the read of the storage is the only step it takes:
  no callback is called.
\<close>

theorem C8_getUser_follows_storage:
  assumes "getItem (storage (storageOptions s)) (key (storageOptions s)) = Inr None"
    and "getItem (storage (storageOptions t)) (key (storageOptions t)) = Inr (Some v)"
  shows "fst (getUser s) = Fulfilled None
       \<and> fst (getUser t) = Fulfilled (user t)
       \<and> new_effects t (snd (getUser t)) = [Storage_getItem (key (storageOptions t))]"
  using assms by (simp add: getUser_def Let_def record_effect_def resolve_def)

text \<open>
  C8 at work: \<open>bob\<close>'s session, and the same session after the storage was emptied from
  outside, where \<open>bob\<close> is still the in-memory user.
\<close>

theorem C8_getUser_follows_storage_witness:
  "user token_cleared_outside = Some bob
   \<and> getItem (storage (storageOptions token_cleared_outside))
        (key (storageOptions token_cleared_outside)) = Inr None
   \<and> getItem (storage (storageOptions bob_signed_in)) (key (storageOptions bob_signed_in))
       = Inr (Some ''{accessToken:a,refreshToken:b}'')
   \<and> fst (getUser token_cleared_outside) = Fulfilled None
   \<and> fst (getUser bob_signed_in) = Fulfilled (Some bob)
   \<and> new_effects bob_signed_in (snd (getUser bob_signed_in)) = [Storage_getItem ''token'']"
proof -
  have h1: "getItem (storage (storageOptions token_cleared_outside))
      (key (storageOptions token_cleared_outside)) = Inr None"
    by (simp add: token_cleared_outside_def bob_signed_in_eq getItem_def empty_storage_def)
  have h2: "getItem (storage (storageOptions bob_signed_in)) (key (storageOptions bob_signed_in))
       = Inr (Some ''{accessToken:a,refreshToken:b}'')"
    by (simp add: bob_signed_in_eq getItem_def)
  have m: "user token_cleared_outside = Some bob" "user bob_signed_in = Some bob"
      "key (storageOptions bob_signed_in) = ''token''"
    by (simp_all add: token_cleared_outside_def bob_signed_in_eq)
  show ?thesis
    using C8_getUser_follows_storage [OF h1 h2] h1 h2 by (simp add: m)
qed

subsection \<open>C9: \<open>signIn\<close> when persisting fails\<close>

text \<open>
  C9 says that after a \<open>signIn\<close> whose \<open>authorize\<close> succeeds and whose persistence fails,
  the in-memory user remains the input user. The rejection of \<open>setUser\<close> is caught by
  \<open>signIn\<close>, whose \<open>catch\<close> block clears the user: on a storage that refuses the write,
  \<open>signIn(bob)\<close> resolves with no in-memory user.
\<close>

theorem C9_user_kept_counterexample:
  "authorize full_manager bob = Fulfilled (Some payload_ab)
   \<and> fst (persistJWTTokenPayload sample_globals payload_ab full_manager)
       = Some (Error ''QuotaExceededError'')
   \<and> fst (signIn sample_globals bob None full_manager) = Fulfilled ()
   \<and> user (snd (signIn sample_globals bob None full_manager)) = None
   \<and> user (snd (signIn sample_globals bob None full_manager)) \<noteq> Some bob"
  by (simp add: bob_def payload_ab_def sample_stringify_def sample_decodeJwt_def
      sample_globals_def full_storage_def sample_authorize_def plain_options_def
      full_manager_def setStorageOptions_def constructor_def persistJWTTokenPayload_def
      setUser_def signIn_catch_def signIn_def Let_def op_defs)

text \<open>
  C9 as amended: when \<open>authorize\<close> resolves to a payload \<open>p\<close> and persisting \<open>p\<close> throws,
  \<open>signIn\<close> resolves; afterwards the in-memory user is absent and no token is stored under
  the configured key, while the in-memory payload is \<open>p\<close>.
\<close>

theorem C9_persistence_failure_clears_user:
  assumes "authorize s u = Fulfilled (Some p)"
    and "fst (persistJWTTokenPayload g p s) = Some e"
  shows "fst (signIn g u None s) = Fulfilled ()
       \<and> user (snd (signIn g u None s)) = None
       \<and> stored_token (snd (signIn g u None s)) = None
       \<and> authPayload (snd (signIn g u None s)) = Some p"
proof -
  have "fst (persistJWTTokenPayload g p
          (write_user (Some u) (record_effect (Call_authorize u) s))) = Some e"
    using assms(2) by (simp add: persist_fst op_defs stored_token_def split: sum.splits)
  from setUser_fails [OF this] assms(1) show ?thesis
    by (simp add: signIn_def signIn_catch_eq op_defs stored_token_def Let_def)
qed

text \<open>The amended C9 at work: \<open>bob\<close> signs in on a storage that refuses the write.\<close>

theorem C9_persistence_failure_clears_user_witness:
  "authorize full_manager bob = Fulfilled (Some payload_ab)
   \<and> fst (persistJWTTokenPayload sample_globals payload_ab full_manager)
       = Some (Error ''QuotaExceededError'')
   \<and> fst (signIn sample_globals bob None full_manager) = Fulfilled ()
   \<and> user (snd (signIn sample_globals bob None full_manager)) = None
   \<and> stored_token (snd (signIn sample_globals bob None full_manager)) = None
   \<and> authPayload (snd (signIn sample_globals bob None full_manager)) = Some payload_ab"
proof -
  have h1: "authorize full_manager bob = Fulfilled (Some payload_ab)"
    by (simp add: bob_def payload_ab_def full_storage_def sample_authorize_def plain_options_def
        full_manager_def setStorageOptions_def constructor_def Let_def)
  have h2: "fst (persistJWTTokenPayload sample_globals payload_ab full_manager)
      = Some (Error ''QuotaExceededError'')"
    by (simp add: payload_ab_def sample_stringify_def sample_decodeJwt_def sample_globals_def
        full_storage_def sample_authorize_def plain_options_def full_manager_def
        setStorageOptions_def constructor_def persistJWTTokenPayload_def Let_def op_defs stored_token_def)
  show ?thesis
    using C9_persistence_failure_clears_user [OF h1 h2] h1 h2 by simp
qed

subsection \<open>C10: \<open>setUser\<close> is not atomic\<close>

text \<open>
  C10: when persisting \<open>p\<close> throws \<open>e\<close> (in \<open>JSON.stringify\<close> or in the write to the
  storage), \<open>setUser(p)\<close> rejects with \<open>e\<close>; the in-memory payload is \<open>p\<close> all the same,
  because it is assigned first; the steps taken are that assignment, the attempted write
  (when the serializer returned) and the log of the error, so no \<open>SETUSER\<close> event is
  emitted; the stored value is the one from before.
\<close>

theorem C10_setUser_not_atomic:
  assumes "fst (persistJWTTokenPayload g p s) = Some e"
  shows "fst (setUser g p s) = Rejected e
       \<and> authPayload (snd (setUser g p s)) = Some p
       \<and> new_effects s (snd (setUser g p s)) =
           Write_authPayload p #
           (case JSON_stringify g p of
              Inl d \<Rightarrow> []
            | Inr j \<Rightarrow> [Storage_setItem (key (storageOptions s)) j])
           @ [Console_error (Thrown e)]
       \<and> Emit (SETUSER p) \<notin> set (new_effects s (snd (setUser g p s)))
       \<and> stored_token (snd (setUser g p s)) = stored_token s"
  using setUser_fails [OF assms] by (simp add: op_defs stored_token_def split: sum.splits)

text \<open>C10 at work: \<open>setUser\<close> on a storage that refuses the write.\<close>

theorem C10_setUser_not_atomic_witness:
  "fst (persistJWTTokenPayload sample_globals payload_ab full_manager)
     = Some (Error ''QuotaExceededError'')
   \<and> authPayload full_manager = None
   \<and> fst (setUser sample_globals payload_ab full_manager) = Rejected (Error ''QuotaExceededError'')
   \<and> authPayload (snd (setUser sample_globals payload_ab full_manager)) = Some payload_ab
   \<and> new_effects full_manager (snd (setUser sample_globals payload_ab full_manager)) =
        [Write_authPayload payload_ab,
         Storage_setItem ''token'' ''{accessToken:a,refreshToken:b}'',
         Console_error (Thrown (Error ''QuotaExceededError''))]"
proof -
  have h: "fst (persistJWTTokenPayload sample_globals payload_ab full_manager)
      = Some (Error ''QuotaExceededError'')"
    by (simp add: payload_ab_def sample_stringify_def sample_decodeJwt_def sample_globals_def
        full_storage_def sample_authorize_def plain_options_def full_manager_def
        setStorageOptions_def constructor_def persistJWTTokenPayload_def Let_def op_defs)
  have m: "JSON_stringify sample_globals payload_ab = Inr ''{accessToken:a,refreshToken:b}''"
      "key (storageOptions full_manager) = ''token''" "authPayload full_manager = None"
    by (simp_all add: payload_ab_def sample_stringify_def sample_decodeJwt_def
        sample_globals_def full_storage_def sample_authorize_def plain_options_def
        full_manager_def setStorageOptions_def constructor_def Let_def)
  show ?thesis
    using C10_setUser_not_atomic [OF h] h by (simp add: m)
qed

section \<open>Further properties of the code\<close>

text \<open>
  What a forced teardown does, for every state: when the current token has expired and the
  refresh function rejects, \<open>checkAccessTokenIsExpired\<close> resolves; afterwards no token is
  stored under the configured key, the in-memory user is absent and the registry of
  middleware handles is empty. The steps taken are the call of the refresh function, the
  log of its error, one \<open>request.eject\<close> on the client instance configured last for every
  registered handle, the removal from the storage and the clearing of the user: no
  \<open>SIGNOUT\<close> event and no call of the sign-out callback are among them. \<open>signOut\<close>, on a
  manager with a sign-out callback, emits \<open>SIGNOUT\<close> and calls the callback.
\<close>

theorem forced_teardown_vs_signOut:
  assumes "authPayload s = Some p" and "accessToken p \<noteq> []"
    and "decodeJwt g (accessToken p) = Decoded jwt"
    and "is_expired (Date_now g) (expiresIn (tryOverrideTokenExpiration p jwt))"
    and "h (refreshToken p) = Rejected e"
    and "signOutCallback t = Some cb"
  shows "fst (checkAccessTokenIsExpired g h s) = Fulfilled ()
       \<and> stored_token (snd (checkAccessTokenIsExpired g h s)) = None
       \<and> user (snd (checkAccessTokenIsExpired g h s)) = None
       \<and> axiosInterceptorEjectIds (snd (checkAccessTokenIsExpired g h s)) = []
       \<and> new_effects s (snd (checkAccessTokenIsExpired g h s)) =
           [Call_refresh (refreshToken p), Console_error (Thrown e)] @ eject_calls s
           @ [Storage_removeItem (key (storageOptions s)), Write_user None]
       \<and> Emit SIGNOUT \<notin> set (new_effects s (snd (checkAccessTokenIsExpired g h s)))
       \<and> Call_signOutCallback \<notin> set (new_effects s (snd (checkAccessTokenIsExpired g h s)))
       \<and> Emit SIGNOUT \<in> set (new_effects t (snd (signOut t)))
       \<and> Call_signOutCallback \<in> set (new_effects t (snd (signOut t)))"
proof -
  have ej: "Emit SIGNOUT \<notin> set (eject_calls s)" "Call_signOutCallback \<notin> set (eject_calls s)"
    by (auto simp: eject_calls_def split: option.splits)
  show ?thesis
    using ej assms(6)
    by (simp add: check_refresh_rejected [of s p g jwt h e, OF assms(1-5)] signOut_eq
          stored_token_def)
qed

text \<open>
  At work: \<open>bob\<close>'s session with an expired token and two registered handles, a refresh
  function that rejects, and \<open>signOut\<close> on a manager with a callback.
\<close>

theorem forced_teardown_vs_signOut_witness:
  "authPayload expired_session = Some payload_old
   \<and> decodeJwt sample_globals (accessToken payload_old) = Decoded \<lparr>exp = Some 1000\<rparr>
   \<and> is_expired (Date_now sample_globals)
        (expiresIn (tryOverrideTokenExpiration payload_old \<lparr>exp = Some 1000\<rparr>))
   \<and> refresh_rejects (refreshToken payload_old) = Rejected (Error ''refresh failed'')
   \<and> signOutCallback callback_manager = Some (Fulfilled ())
   \<and> axiosInterceptorEjectIds expired_session = [0, 0]
   \<and> user expired_session = Some bob
   \<and> fst (checkAccessTokenIsExpired sample_globals refresh_rejects expired_session) = Fulfilled ()
   \<and> stored_token (snd (checkAccessTokenIsExpired sample_globals refresh_rejects expired_session))
       = None
   \<and> user (snd (checkAccessTokenIsExpired sample_globals refresh_rejects expired_session)) = None
   \<and> axiosInterceptorEjectIds
        (snd (checkAccessTokenIsExpired sample_globals refresh_rejects expired_session)) = []
   \<and> new_effects expired_session
        (snd (checkAccessTokenIsExpired sample_globals refresh_rejects expired_session)) =
        [Call_refresh ''r0'', Console_error (Thrown (Error ''refresh failed'')),
         Request_eject 7 0, Request_eject 7 0, Storage_removeItem ''token'', Write_user None]
   \<and> new_effects callback_manager (snd (signOut callback_manager)) =
        [Storage_removeItem ''token'', Write_user None, Emit SIGNOUT, Call_signOutCallback]"
proof -
  have e: "expired_session =
      bob_signed_in\<lparr>storageOptions := \<lparr>key = ''token'',
         storage = \<lparr>items = [''token'' \<mapsto> ''{accessToken:expired.jwt,refreshToken:r0}''],
                    getItem_throws = None, setItem_throws = None\<rparr>\<rparr>,
        authPayload := Some payload_old, axiosInstance := Some 7,
        axiosInterceptorEjectIds := [0, 0],
        trace := trace bob_signed_in @ [Write_authPayload payload_old,
               Storage_setItem ''token'' ''{accessToken:expired.jwt,refreshToken:r0}'',
               Emit (SETUSER payload_old),
               Console_log ''The user payload has been successfully updated.'']\<rparr>"
    unfolding expired_session_def
    by (simp add: bob_signed_in_eq) (simp add: bob_def payload_ab_def payload_old_def
        sample_stringify_def sample_decodeJwt_def sample_globals_def empty_storage_def
        sample_authorize_def plain_options_def fresh_manager_def bob_signed_in_def
        expired_session_def setStorageOptions_def constructor_def persistJWTTokenPayload_def
        setUser_def signIn_catch_def signIn_def applyAxiosMiddleware_def Let_def op_defs stored_token_def)
  have h1: "authPayload expired_session = Some payload_old" by (simp add: e)
  have h2: "accessToken payload_old \<noteq> []" by (simp add: payload_old_def)
  have h3: "decodeJwt sample_globals (accessToken payload_old) = Decoded \<lparr>exp = Some 1000\<rparr>"
    by (simp add: payload_old_def sample_stringify_def sample_decodeJwt_def sample_globals_def)
  have h4: "is_expired (Date_now sample_globals)
        (expiresIn (tryOverrideTokenExpiration payload_old \<lparr>exp = Some 1000\<rparr>))"
    by (simp add: payload_old_def sample_stringify_def sample_decodeJwt_def sample_globals_def
        truthy_def is_expired_def tryOverrideTokenExpiration_def Let_def)
  have h5: "refresh_rejects (refreshToken payload_old) = Rejected (Error ''refresh failed'')"
    by (simp add: payload_old_def refresh_rejects_def)
  have h6: "signOutCallback callback_manager = Some (Fulfilled ())"
    by (simp add: payload_ab_def empty_storage_def sample_authorize_def plain_options_def
        callback_manager_def setStorageOptions_def constructor_def Let_def)
  have s: "new_effects callback_manager (snd (signOut callback_manager)) =
        [Storage_removeItem ''token'', Write_user None, Emit SIGNOUT, Call_signOutCallback]"
    by (simp add: signOut_eq eject_calls_def)
      (simp add: empty_storage_def plain_options_def callback_manager_def constructor_def
        Let_def)
  have m: "eject_calls expired_session = [Request_eject 7 0, Request_eject 7 0]"
      "key (storageOptions expired_session) = ''token''" "refreshToken payload_old = ''r0''"
      "axiosInterceptorEjectIds expired_session = [0, 0]" "user expired_session = Some bob"
    by (simp_all add: e eject_calls_def bob_signed_in_eq) (simp add: bob_def payload_ab_def
        payload_old_def sample_stringify_def sample_decodeJwt_def sample_globals_def
        empty_storage_def sample_authorize_def plain_options_def fresh_manager_def
        bob_signed_in_def expired_session_def)
  show ?thesis
    using forced_teardown_vs_signOut [of expired_session payload_old sample_globals
        "\<lparr>exp = Some 1000\<rparr>" refresh_rejects "Error ''refresh failed''" callback_manager
        "Fulfilled ()", OF h1 h2 h3 h4 h5 h6] h1 h3 h4 h5 h6 s
    by (simp add: m)
qed

text \<open>
  When the decoder reports a token it cannot decode by returning \<open>null\<close>, the expiry
  check is the no-op the guard \<open>payload === null\<close> provides for: it resolves and the
  state, the trace included, is the one from before.
\<close>

theorem check_decoder_null:
  assumes "authPayload s = Some p" and "accessToken p \<noteq> []"
    and "decodeJwt g (accessToken p) = Decode_null"
  shows "checkAccessTokenIsExpired g h s = (Fulfilled (), s)"
  using assms by (simp add: checkAccessTokenIsExpired_def)

theorem check_decoder_null_witness:
  "authPayload malformed_session = Some payload_malformed
   \<and> decodeJwt null_decoder_globals (accessToken payload_malformed) = Decode_null
   \<and> checkAccessTokenIsExpired null_decoder_globals refresh_ok malformed_session
       = (Fulfilled (), malformed_session)"
proof -
  have p: "authPayload malformed_session = Some payload_malformed"
    by (simp add: malformed_session_def bob_signed_in_eq)
      (simp add: setUser_def persistJWTTokenPayload_def op_defs bob_def payload_ab_def
          payload_malformed_def sample_stringify_def sample_decodeJwt_def sample_globals_def
          empty_storage_def sample_authorize_def plain_options_def fresh_manager_def
          bob_signed_in_def malformed_session_def Let_def)
  have n: "accessToken payload_malformed \<noteq> []"
    by (simp add: payload_malformed_def)
  have d: "decodeJwt null_decoder_globals (accessToken payload_malformed) = Decode_null"
    by (simp add: payload_malformed_def sample_stringify_def sample_decodeJwt_def
        sample_globals_def null_decoder_globals_def)
  from check_decoder_null [OF p n d] p d show ?thesis by simp
qed

text \<open>
  The handles of every client instance are ejected on the instance configured last, and
  through its request interceptors: after \<open>applyAxiosMiddleware\<close> on instance \<open>i\<close> with
  handles \<open>a\<close>, \<open>b\<close> and then on instance \<open>j\<close> with handles \<open>c\<close>, \<open>d\<close>, a teardown issues
  \<open>request.eject\<close> on \<open>j\<close> for all four handles and none on \<open>i\<close>.
\<close>

theorem eject_on_latest_instance:
  "eject_calls (applyAxiosMiddleware j c d (applyAxiosMiddleware i a b s)) =
     map (Request_eject j) (axiosInterceptorEjectIds s @ [a, b, c, d])"
  by (simp add: eject_calls_def applyAxiosMiddleware_def Let_def)

end
